theory Spec2Isabelle
  imports Complex_Main
begin

section \<open>JavaScript numbers\<close>

text \<open>
  Every numeric field of the invoice (\<^verbatim>\<open>quantity\<close>, \<^verbatim>\<open>price\<close>, \<^verbatim>\<open>taxRate\<close>, the
  line-item \<^verbatim>\<open>id\<close>) and every coordinate handed to the PDF library is a JavaScript
  \<^verbatim>\<open>number\<close>: an IEEE 754 binary64 value. A finite non-zero value is kept as the
  rational it denotes; the two zeros, the two infinities and NaN are constructors of
  their own. \<open>Fin 0\<close> is \<open>+0\<close>.
\<close>

datatype number = NaN | PosInfinity | NegInfinity | NegZero | Fin rat

fun is_nan :: "number \<Rightarrow> bool" where
  "is_nan NaN = True"
| "is_nan _ = False"

fun is_inf :: "number \<Rightarrow> bool" where
  "is_inf PosInfinity = True"
| "is_inf NegInfinity = True"
| "is_inf _ = False"

fun is_zero :: "number \<Rightarrow> bool" where
  "is_zero NegZero = True"
| "is_zero (Fin r) = (r = 0)"
| "is_zero _ = False"

text \<open>The sign bit, and the mathematical value of a finite number (\<open>0\<close> for both zeros).\<close>

fun negative :: "number \<Rightarrow> bool" where
  "negative NegZero = True"
| "negative NegInfinity = True"
| "negative (Fin r) = (r < 0)"
| "negative _ = False"

fun mv :: "number \<Rightarrow> rat" where
  "mv (Fin r) = r"
| "mv _ = 0"

definition signed_zero :: "bool \<Rightarrow> number" where
  "signed_zero neg = (if neg then NegZero else Fin 0)"

definition signed_inf :: "bool \<Rightarrow> number" where
  "signed_inf neg = (if neg then NegInfinity else PosInfinity)"

subsection \<open>Rounding a rational to binary64, ties to even\<close>

text \<open>The number of binary digits of a positive integer (\<open>0\<close> for the others).\<close>

function bit_length :: "int \<Rightarrow> nat" where
  "bit_length n = (if n \<le> 0 then 0 else Suc (bit_length (n div 2)))"
  by pat_completeness auto
termination
  by (relation "measure nat") auto

declare bit_length.simps [simp del]

text \<open>
  For \<open>x > 0\<close>, the integer \<open>e\<close> with \<open>2^e \<le> x < 2^(e+1)\<close>; \<open>2 powi e\<close> is the
  power with an integer exponent.
\<close>

definition floor_log2 :: "rat \<Rightarrow> int" where
  "floor_log2 x =
     (if 1 \<le> x then int (bit_length \<lfloor>x\<rfloor>) - 1
      else - int (bit_length (\<lceil>1 / x\<rceil> - 1)))"

text \<open>
  The distance between neighbouring binary64 values around a magnitude \<open>a\<close>: 53
  significant bits, and the fixed spacing \<open>2^-1074\<close> of the subnormal range below
  \<open>2^-1022\<close>.
\<close>

definition quantum :: "rat \<Rightarrow> rat" where
  "quantum a = 2 powi (max (floor_log2 a) (- 1022) - 52)"

definition round_half_even :: "rat \<Rightarrow> int" where
  "round_half_even n =
     (let m = \<lfloor>n\<rfloor>; r = n - of_int m
      in if r < 1 / 2 then m else if 1 / 2 < r then m + 1
         else if even m then m else m + 1)"

text \<open>
  The binary64 value nearest to the rational \<open>x\<close>. A result of \<open>2^1024\<close> or more
  overflows to an infinity; a non-zero \<open>x\<close> that rounds to zero keeps its sign.
\<close>

definition round_binary64 :: "rat \<Rightarrow> number" where
  "round_binary64 x =
     (let a = \<bar>x\<bar>; q = quantum a; y = of_int (round_half_even (a / q)) * q
      in if 2 powi 1024 \<le> y then signed_inf (x < 0)
         else if y = 0 then signed_zero (x < 0)
         else Fin (if x < 0 then - y else y))"

text \<open>
  The values of type \<open>number\<close> that are binary64 values: of the rationals, those that
  rounding leaves as they are.
\<close>

definition is_binary64 :: "number \<Rightarrow> bool" where
  "is_binary64 x = (case x of Fin r \<Rightarrow> round_binary64 r = Fin r | _ \<Rightarrow> True)"

subsection \<open>The operators \<^verbatim>\<open>+\<close>, \<^verbatim>\<open>*\<close>, \<^verbatim>\<open>/\<close> and \<^verbatim>\<open>||\<close> on numbers\<close>

definition num_add :: "number \<Rightarrow> number \<Rightarrow> number" where
  "num_add x y =
     (if is_nan x \<or> is_nan y then NaN
      else if is_inf x then (if is_inf y \<and> negative x \<noteq> negative y then NaN else x)
      else if is_inf y then y
      else if is_zero x \<and> is_zero y then signed_zero (negative x \<and> negative y)
      else round_binary64 (mv x + mv y))"

definition num_mul :: "number \<Rightarrow> number \<Rightarrow> number" where
  "num_mul x y =
     (if is_nan x \<or> is_nan y then NaN
      else if is_inf x \<or> is_inf y then
        (if is_zero x \<or> is_zero y then NaN else signed_inf (negative x \<noteq> negative y))
      else if is_zero x \<or> is_zero y then signed_zero (negative x \<noteq> negative y)
      else round_binary64 (mv x * mv y))"

definition num_div :: "number \<Rightarrow> number \<Rightarrow> number" where
  "num_div x y =
     (if is_nan x \<or> is_nan y then NaN
      else if is_inf x then (if is_inf y then NaN else signed_inf (negative x \<noteq> negative y))
      else if is_inf y then signed_zero (negative x \<noteq> negative y)
      else if is_zero y then (if is_zero x then NaN else signed_inf (negative x \<noteq> negative y))
      else if is_zero x then signed_zero (negative x \<noteq> negative y)
      else round_binary64 (mv x / mv y))"

text \<open>\<^verbatim>\<open>ToBoolean\<close> of a number: the zeros and NaN are falsy. \<^verbatim>\<open>x || 0\<close> is \<open>or_zero x\<close>.\<close>

definition to_boolean :: "number \<Rightarrow> bool" where
  "to_boolean x = (\<not> is_nan x \<and> \<not> is_zero x)"

definition or_zero :: "number \<Rightarrow> number" where
  "or_zero x = (if to_boolean x then x else Fin 0)"

subsection \<open>\<^verbatim>\<open>Number.prototype.toFixed\<close>\<close>

text \<open>
  A \<open>char\<close> stands for a UTF-16 code unit below 256; the strings of the invoice with
  other code units are outside the model.
\<close>

definition digit_char :: "int \<Rightarrow> char" where
  "digit_char d = ''0123456789'' ! nat d"

text \<open>The decimal digits of a non-negative integer, without leading zeros.\<close>

function int_to_digits :: "int \<Rightarrow> string" where
  "int_to_digits n =
     (if n < 10 then [digit_char n] else int_to_digits (n div 10) @ [digit_char (n mod 10)])"
  by pat_completeness auto
termination
  by (relation "measure nat") auto

declare int_to_digits.simps [simp del]

text \<open>
  \<^verbatim>\<open>x.toFixed(f)\<close> as ECMAScript defines it: the integer \<open>n\<close> nearest to \<open>x * 10^f\<close>,
  the larger one on a tie, printed with \<open>f\<close> digits after the point. From \<open>10^21\<close>
  on the result is that of \<^verbatim>\<open>Number::toString\<close>, which is not modelled and is the
  argument \<open>numToString\<close>.
\<close>

definition toFixed :: "(number \<Rightarrow> string) \<Rightarrow> number \<Rightarrow> nat \<Rightarrow> string" where
  "toFixed numToString x f =
     (if is_nan x then ''NaN''
      else if is_inf x then (if negative x then ''-Infinity'' else ''Infinity'')
      else
        let v = mv x;
            s = (if v < 0 then ''-'' else []);
            a = \<bar>v\<bar>
        in if 10 ^ 21 \<le> a then s @ numToString (Fin a)
           else
             let n = \<lfloor>a * 10 ^ f + 1 / 2\<rfloor>;
                 m = int_to_digits n;
                 m' = (if length m \<le> f then replicate (f + 1 - length m) CHR ''0'' @ m else m);
                 k = length m'
             in if f = 0 then s @ m
                else s @ take (k - f) m' @ ''.'' @ drop (k - f) m')"

subsection \<open>\<^verbatim>\<open>parseFloat\<close> and \<^verbatim>\<open>Number\<close> on strings\<close>

definition is_white_space :: "char \<Rightarrow> bool" where
  "is_white_space c = ((of_char c :: nat) \<in> {9, 10, 11, 12, 13, 32, 160})"

definition is_digit :: "char \<Rightarrow> bool" where
  "is_digit c = (48 \<le> (of_char c :: nat) \<and> (of_char c :: nat) \<le> 57)"

definition digit_value :: "char \<Rightarrow> int" where
  "digit_value c = of_char c - 48"

definition digits_value :: "int \<Rightarrow> (char \<Rightarrow> int) \<Rightarrow> string \<Rightarrow> int" where
  "digits_value base dv ds = foldl (\<lambda>acc c. base * acc + dv c) 0 ds"

text \<open>\<^verbatim>\<open>ExponentPart\<close>: \<^verbatim>\<open>e\<close> or \<^verbatim>\<open>E\<close>, an optional sign and at least one digit.\<close>

definition scan_exponent :: "string \<Rightarrow> (int \<times> string) option" where
  "scan_exponent s =
     (case s of
        [] \<Rightarrow> None
      | c # r \<Rightarrow>
          if c = CHR ''e'' \<or> c = CHR ''E'' then
            (let (sg, r') =
                   (case r of
                      [] \<Rightarrow> (1, r)
                    | d # r1 \<Rightarrow> if d = CHR ''+'' then (1, r1)
                               else if d = CHR ''-'' then (- 1, r1) else (1, r));
                 ds = takeWhile is_digit r'
             in if ds = [] then None
                else Some (sg * digits_value 10 digit_value ds, dropWhile is_digit r'))
          else None)"

text \<open>
  The longest prefix that is a \<^verbatim>\<open>StrUnsignedDecimalLiteral\<close> other than \<^verbatim>\<open>Infinity\<close>
  (digits, an optional fraction, an optional exponent; at least one digit before the
  exponent), its exact value and the rest of the string.
\<close>

definition scan_unsigned_decimal :: "string \<Rightarrow> (rat \<times> string) option" where
  "scan_unsigned_decimal s =
     (let ip = takeWhile is_digit s;
          r1 = dropWhile is_digit s;
          (fp, r2) =
            (case r1 of
               [] \<Rightarrow> ([], r1)
             | c # r \<Rightarrow> if c = CHR ''.'' then (takeWhile is_digit r, dropWhile is_digit r)
                        else ([], r1))
      in if ip = [] \<and> fp = [] then None
         else
           let (ex, r3) = (case scan_exponent r2 of None \<Rightarrow> (0, r2) | Some (k, r) \<Rightarrow> (k, r))
           in Some (of_int (digits_value 10 digit_value (ip @ fp)) * 10 powi (ex - int (length fp)),
                    r3))"

text \<open>The longest prefix that is a \<^verbatim>\<open>StrDecimalLiteral\<close>, its number value and the rest.\<close>

definition scan_StrDecimalLiteral :: "string \<Rightarrow> (number \<times> string) option" where
  "scan_StrDecimalLiteral s =
     (let (neg, r) =
            (case s of
               [] \<Rightarrow> (False, s)
             | c # r \<Rightarrow> if c = CHR ''-'' then (True, r)
                        else if c = CHR ''+'' then (False, r) else (False, s))
      in if take 8 r = ''Infinity'' then Some (signed_inf neg, drop 8 r)
         else
           (case scan_unsigned_decimal r of
              None \<Rightarrow> None
            | Some (v, rest) \<Rightarrow>
                Some (if v = 0 then signed_zero neg
                      else round_binary64 (if neg then - v else v), rest)))"

definition parseFloat :: "string \<Rightarrow> number" where
  "parseFloat s =
     (case scan_StrDecimalLiteral (dropWhile is_white_space s) of
        None \<Rightarrow> NaN
      | Some (v, rest) \<Rightarrow> v)"

text \<open>\<^verbatim>\<open>NonDecimalIntegerLiteral\<close>: \<^verbatim>\<open>0x\<close>, \<^verbatim>\<open>0o\<close> or \<^verbatim>\<open>0b\<close> and digits of that base.\<close>

definition radix_of :: "char \<Rightarrow> int option" where
  "radix_of c =
     (if c = CHR ''x'' \<or> c = CHR ''X'' then Some 16
      else if c = CHR ''o'' \<or> c = CHR ''O'' then Some 8
      else if c = CHR ''b'' \<or> c = CHR ''B'' then Some 2
      else None)"

definition radix_digit_value :: "char \<Rightarrow> int" where
  "radix_digit_value c =
     (let k = (of_char c :: int)
      in if 48 \<le> k \<and> k \<le> 57 then k - 48
         else if 97 \<le> k \<and> k \<le> 102 then k - 87
         else if 65 \<le> k \<and> k \<le> 70 then k - 55
         else 16)"

definition non_decimal_literal :: "string \<Rightarrow> number option" where
  "non_decimal_literal t =
     (case t of
        c0 # c1 # ds \<Rightarrow>
          (case radix_of c1 of
             None \<Rightarrow> None
           | Some b \<Rightarrow>
               if c0 = CHR ''0'' \<and> ds \<noteq> [] \<and> list_all (\<lambda>d. radix_digit_value d < b) ds
               then Some (round_binary64 (of_int (digits_value b radix_digit_value ds)))
               else None)
      | _ \<Rightarrow> None)"

definition trim :: "string \<Rightarrow> string" where
  "trim s = rev (dropWhile is_white_space (rev (dropWhile is_white_space s)))"

text \<open>
  \<^verbatim>\<open>Number(s)\<close> for a string \<open>s\<close> (\<^verbatim>\<open>StringToNumber\<close>): the whole string, white space
  at both ends apart, must be a numeric literal; the empty string is \<open>+0\<close>.
\<close>

definition string_to_number :: "string \<Rightarrow> number" where
  "string_to_number s =
     (let t = trim s
      in if t = [] then Fin 0
         else
           (case non_decimal_literal t of
              Some v \<Rightarrow> v
            | None \<Rightarrow>
                (case scan_StrDecimalLiteral t of
                   None \<Rightarrow> NaN
                 | Some (v, rest) \<Rightarrow> if rest = [] then v else NaN)))"

section \<open>Data model (src/types/invoice.ts)\<close>

text \<open>
  The three interfaces, field by field. \<^verbatim>\<open>LineItem.id\<close> is \<open>item_id\<close>, and the fields
  \<^verbatim>\<open>id\<close>, \<^verbatim>\<open>from\<close>, \<^verbatim>\<open>to\<close> and \<^verbatim>\<open>notes\<close> of \<^verbatim>\<open>Invoice\<close> are \<open>inv_id\<close>, \<open>inv_from\<close>,
  \<open>inv_to\<close> and \<open>inv_notes\<close>: the plain names are taken.
\<close>

record Address =
  name :: string
  email :: string
  address :: string

record LineItem =
  item_id :: number
  description :: string
  quantity :: number
  price :: number

record Invoice =
  inv_id :: string
  createdAt :: string
  dueDate :: string
  inv_from :: Address
  inv_to :: Address
  items :: "LineItem list"
  inv_notes :: string
  taxRate :: number

section \<open>Line items (components/invoice/LineItems.tsx)\<close>

text \<open>
  \<^verbatim>\<open>addItem$\<close> pushes a blank item whose id is the reading of \<^verbatim>\<open>Date.now()\<close>. The clock
  is outside the program, so its reading \<open>now\<close> is an argument of the model.
\<close>

definition addItem :: "number \<Rightarrow> LineItem list \<Rightarrow> LineItem list" where
  "addItem now its =
     its @ [\<lparr>item_id = now, description = [], quantity = Fin 1, price = Fin 0\<rparr>]"

text \<open>
  \<^verbatim>\<open>ToIntegerOrInfinity\<close> of ECMAScript, as \<^verbatim>\<open>Array.prototype.splice\<close> applies it to
  its \<^verbatim>\<open>start\<close> argument, followed by the clamping of \<^verbatim>\<open>splice\<close>: a negative start
  counts from the end, and the result lies between \<open>0\<close> and the length.
\<close>

definition trunc_rat :: "rat \<Rightarrow> int" where
  "trunc_rat r = (if r < 0 then - \<lfloor>- r\<rfloor> else \<lfloor>r\<rfloor>)"

fun actualStart :: "nat \<Rightarrow> number \<Rightarrow> nat" where
  "actualStart len NaN = 0"
| "actualStart len NegZero = 0"
| "actualStart len NegInfinity = 0"
| "actualStart len PosInfinity = len"
| "actualStart len (Fin r) =
     (let t = trunc_rat r
      in if t < 0 then nat (max (int len + t) 0) else min (nat t) len)"

text \<open>\<^verbatim>\<open>items.splice(start, deleteCount)\<close>, returning the array as it is afterwards.\<close>

definition splice :: "number \<Rightarrow> nat \<Rightarrow> 'a list \<Rightarrow> 'a list" where
  "splice start deleteCount xs =
     (let len = length xs;
          s = actualStart len start;
          dc = min deleteCount (len - s)
      in take s xs @ drop (s + dc) xs)"

definition removeItem :: "number \<Rightarrow> LineItem list \<Rightarrow> LineItem list" where
  "removeItem index its = splice index 1 its"

text \<open>
  The \<^verbatim>\<open>onInput$\<close> handlers of the quantity and price fields:
  \<^verbatim>\<open>item.quantity = parseFloat(e.target.value) || 0\<close>, and the same for the price.
\<close>

definition quantity_onInput :: "string \<Rightarrow> LineItem \<Rightarrow> LineItem" where
  "quantity_onInput v item = item\<lparr>quantity := or_zero (parseFloat v)\<rparr>"

definition price_onInput :: "string \<Rightarrow> LineItem \<Rightarrow> LineItem" where
  "price_onInput v item = item\<lparr>price := or_zero (parseFloat v)\<rparr>"

text \<open>\<^verbatim>\<open>(item.quantity * item.price)\<close>, the line total of a row.\<close>

definition line_total :: "LineItem \<Rightarrow> number" where
  "line_total item = num_mul (quantity item) (price item)"


section \<open>The invoice page (routes/index.tsx): derived totals and the tax field\<close>

text \<open>
  The three values computed on each render:
  \<^verbatim>\<open>invoice.items.reduce((sum, item) => sum + (item.quantity * item.price), 0)\<close>,
  \<^verbatim>\<open>subtotal * (invoice.taxRate / 100)\<close> and \<^verbatim>\<open>subtotal + taxAmount\<close>.
\<close>

definition subtotal :: "Invoice \<Rightarrow> number" where
  "subtotal iv =
     foldl (\<lambda>sum item. num_add sum (num_mul (quantity item) (price item))) (Fin 0) (items iv)"

definition taxAmount :: "Invoice \<Rightarrow> number" where
  "taxAmount iv = num_mul (subtotal iv) (num_div (taxRate iv) (Fin 100))"

definition total :: "Invoice \<Rightarrow> number" where
  "total iv = num_add (subtotal iv) (taxAmount iv)"

text \<open>
  The tax field: \<^verbatim>\<open>invoice.taxRate = Number(e.target.value || 0)\<close>. The empty string is
  falsy, so it is replaced by the number \<open>0\<close>; any other string goes to \<^verbatim>\<open>Number\<close>.
\<close>

definition taxRate_onInput :: "string \<Rightarrow> Invoice \<Rightarrow> Invoice" where
  "taxRate_onInput v iv = iv\<lparr>taxRate := (if v = [] then Fin 0 else string_to_number v)\<rparr>"

text \<open>
  The sum of a sequence of numbers taken from left to right, starting at \<open>0\<close>: the
  reading of \<open>\<Sum>\<close> under floating-point addition, which is not associative.
\<close>

definition sum_numbers :: "number list \<Rightarrow> number" where
  "sum_numbers xs = foldl num_add (Fin 0) xs"

text \<open>The store the page starts from; its id and dates come from the clock and \<^verbatim>\<open>Math.random\<close>.\<close>

definition initial_invoice :: "string \<Rightarrow> string \<Rightarrow> string \<Rightarrow> Invoice" where
  "initial_invoice new_id today due =
     \<lparr>inv_id = new_id, createdAt = today, dueDate = due,
      inv_from = \<lparr>name = ''My Company LLC'', email = ''hello@mycompany.com'',
                  address = ''123 Tech Blvd, San Francisco, CA 94107''\<rparr>,
      inv_to = \<lparr>name = ''Client Name'', email = ''client@business.com'',
                address = ''456 Market St, New York, NY 10001''\<rparr>,
      items = [\<lparr>item_id = Fin 1, description = ''Web Development Services'',
                 quantity = Fin 10, price = Fin 85\<rparr>,
               \<lparr>item_id = Fin 2, description = ''Server Setup'',
                 quantity = Fin 2, price = Fin 150\<rparr>],
      inv_notes = ''Payment is due within 14 days.'' @ [CHR 0x0A]
                  @ ''This document remains valid even without a signature.'' @ [CHR 0x0A]
                  @ ''Thank you for your business!'',
      taxRate = Fin 8\<rparr>"

text \<open>A small invoice: three units at 1.00 and a tax rate of 19 per cent.\<close>

definition vat_example :: Invoice where
  "vat_example =
     (initial_invoice ''INV-20261234'' ''2026-11-02'' ''2026-11-16'')
       \<lparr>items := [\<lparr>item_id = Fin 1, description = ''Hosting'', quantity = Fin 3, price = Fin 1\<rparr>],
        taxRate := Fin 19\<rparr>"

section \<open>The PDF library and the browser, as the download handler sees them\<close>

type_synonym color = "number \<times> number \<times> number"

datatype text_arg = Str string | Lines "string list"

record table_options =
  startY :: number
  head_rows :: "string list list"
  body_rows :: "string list list"
  theme :: string
  headStyles_fillColor :: color
  foot_rows :: "string list list"
  footStyles_fillColor :: color
  footStyles_textColor :: color
  footStyles_fontStyle :: string

text \<open>
  What the handler does to the outside, in the order it does it: elements put on the
  page (a text with the font size and colour current at that moment, an image, a
  table), the file handed to the browser, console messages, alerts, and script tags
  appended to the document.
\<close>

datatype event =
    ScriptAppended string
  | TextDrawn text_arg number number number color
  | ImageAdded string string number number number number
  | TableDrawn table_options
  | Saved string
  | ConsoleWarn string string
  | ConsoleError string string
  | Alert string

text \<open>
  The parts of jsPDF, of its table plug-in and of the browser that the source calls but
  does not contain are parameters: whether the two libraries are on \<^verbatim>\<open>window\<close> already
  and whether their scripts load, the error \<^verbatim>\<open>addImage\<close> throws for an image (if any),
  the line breaking of \<^verbatim>\<open>splitTextToSize\<close> (at the current font size), the y at which
  the table engine reports the table to end, and \<^verbatim>\<open>Number::toString\<close>. Of the library
  calls only \<^verbatim>\<open>addImage\<close> and the two script loads can fail in the model.
\<close>

record env =
  jspdf_present :: bool
  autoTable_present :: bool
  jspdf_script_loads :: bool
  autoTable_script_loads :: bool
  addImage_error :: "string \<Rightarrow> string option"
  splitTextToSize :: "number \<Rightarrow> string \<Rightarrow> number \<Rightarrow> string list"
  table_finalY :: "table_options \<Rightarrow> number"
  numToString :: "number \<Rightarrow> string"

text \<open>
  The state the handler threads through the calls on \<^verbatim>\<open>doc\<close>: the current font size
  and text colour, \<^verbatim>\<open>doc.lastAutoTable.finalY\<close> once a table has been drawn, and the
  events so far.
\<close>

record pdf_state =
  fontSize :: number
  textColor :: color
  lastAutoTable_finalY :: "number option"
  trace :: "event list"

text \<open>\<^verbatim>\<open>new jsPDF()\<close>: the library's defaults, both overwritten before the first text.\<close>

definition new_jsPDF :: "event list \<Rightarrow> pdf_state" where
  "new_jsPDF evs =
     \<lparr>fontSize = Fin 16, textColor = (Fin 0, Fin 0, Fin 0), lastAutoTable_finalY = None,
      trace = evs\<rparr>"

definition emit :: "event \<Rightarrow> pdf_state \<Rightarrow> pdf_state" where
  "emit e d = d\<lparr>trace := trace d @ [e]\<rparr>"

definition doc_setFontSize :: "number \<Rightarrow> pdf_state \<Rightarrow> pdf_state" where
  "doc_setFontSize n d = d\<lparr>fontSize := n\<rparr>"

definition doc_setTextColor :: "number \<Rightarrow> number \<Rightarrow> number \<Rightarrow> pdf_state \<Rightarrow> pdf_state" where
  "doc_setTextColor r g b d = d\<lparr>textColor := (r, g, b)\<rparr>"

definition doc_text :: "text_arg \<Rightarrow> number \<Rightarrow> number \<Rightarrow> pdf_state \<Rightarrow> pdf_state" where
  "doc_text t x y d = emit (TextDrawn t x y (fontSize d) (textColor d)) d"

definition doc_addImage ::
  "env \<Rightarrow> string \<Rightarrow> string \<Rightarrow> number \<Rightarrow> number \<Rightarrow> number \<Rightarrow> number \<Rightarrow> pdf_state
     \<Rightarrow> string + pdf_state" where
  "doc_addImage ev img fmt x y w h d =
     (case addImage_error ev img of
        Some err \<Rightarrow> Inl err
      | None \<Rightarrow> Inr (emit (ImageAdded img fmt x y w h) d))"

definition doc_autoTable :: "env \<Rightarrow> table_options \<Rightarrow> pdf_state \<Rightarrow> pdf_state" where
  "doc_autoTable ev opts d =
     (emit (TableDrawn opts) d)\<lparr>lastAutoTable_finalY := Some (table_finalY ev opts)\<rparr>"

definition doc_save :: "string \<Rightarrow> pdf_state \<Rightarrow> pdf_state" where
  "doc_save filename d = emit (Saved filename) d"

section \<open>The download handler (routes/index.tsx, \<^verbatim>\<open>handleDownload$\<close>)\<close>

definition jspdf_url :: string where
  "jspdf_url = ''https://cdn.jsdelivr.net/npm/jspdf@2.5.1/dist/jspdf.umd.min.js''"

definition autoTable_url :: string where
  "autoTable_url =
     ''https://cdn.jsdelivr.net/npm/jspdf-autotable@3.5.29/dist/jspdf.plugin.autotable.min.js''"

text \<open>The outer \<^verbatim>\<open>catch\<close>: a console diagnostic and a blocking alert.\<close>

definition pdf_failure :: "string \<Rightarrow> event list" where
  "pdf_failure err =
     [ConsoleError ''PDF generation failed:'' err,
      Alert ''Failed to generate PDF. Check console for details.'']"

definition printAddress :: "env \<Rightarrow> string \<Rightarrow> Address \<Rightarrow> number \<Rightarrow> pdf_state \<Rightarrow> pdf_state" where
  "printAddress ev label data xPos d0 =
     (let d1 = doc_setFontSize (Fin 12) d0;
          d2 = doc_setTextColor (Fin 0) (Fin 0) (Fin 0) d1;
          d3 = doc_text (Str label) xPos (Fin 55) d2;
          d4 = doc_setFontSize (Fin 10) d3;
          d5 = doc_setTextColor (Fin 60) (Fin 60) (Fin 60) d4;
          d6 = doc_text (Str (name data)) xPos (Fin 62) d5;
          d7 = doc_text (Str (email data)) xPos (Fin 67) d6;
          splitAddress = splitTextToSize ev (fontSize d7) (address data) (Fin 80)
      in doc_text (Lines splitAddress) xPos (Fin 72) d7)"

definition tableBody :: "env \<Rightarrow> Invoice \<Rightarrow> string list list" where
  "tableBody ev iv =
     map (\<lambda>item. [description item,
                  numToString ev (quantity item),
                  ''$'' @ toFixed (numToString ev) (price item) 2,
                  ''$'' @ toFixed (numToString ev) (num_mul (quantity item) (price item)) 2])
         (items iv)"

text \<open>
  Step 3 and step 4 of the handler. \<open>sub\<close>, \<open>tax\<close> and \<open>tot\<close> are the values of
  \<^verbatim>\<open>subtotal\<close>, \<^verbatim>\<open>taxAmount\<close> and \<^verbatim>\<open>total\<close> that the closure captured at the render
  that created it; the invoice and the logo are read when the handler runs.
\<close>

definition generate_pdf ::
  "env \<Rightarrow> string option \<Rightarrow> Invoice \<Rightarrow> number \<Rightarrow> number \<Rightarrow> number \<Rightarrow> pdf_state \<Rightarrow> pdf_state" where
  "generate_pdf ev logo iv sub tax tot d0 =
     (let d1 = doc_setFontSize (Fin 22) d0;
          d2 = doc_setTextColor (Fin 40) (Fin 40) (Fin 40) d1;
          d3 = doc_text (Str ''INVOICE'') (Fin 14) (Fin 20) d2;
          d4 = (case logo of
                  None \<Rightarrow> d3
                | Some url \<Rightarrow>
                    if url = [] then d3
                    else
                      (case doc_addImage ev url ''PNG'' (Fin 150) (Fin 10) (Fin 45) (Fin 15) d3 of
                         Inr d \<Rightarrow> d
                       | Inl err \<Rightarrow> emit (ConsoleWarn ''Could not embed logo in PDF:'' err) d3));
          d5 = doc_setFontSize (Fin 10) d4;
          d6 = doc_setTextColor (Fin 100) (Fin 100) (Fin 100) d5;
          d7 = doc_text (Str (''Invoice #'' @ inv_id iv)) (Fin 14) (Fin 30) d6;
          d8 = doc_text (Str (''Date: '' @ createdAt iv)) (Fin 14) (Fin 35) d7;
          d9 = doc_text (Str (''Due Date: '' @ dueDate iv)) (Fin 14) (Fin 40) d8;
          d10 = printAddress ev ''FROM:'' (inv_from iv) (Fin 14) d9;
          d11 = printAddress ev ''TO:'' (inv_to iv) (Fin 120) d10;
          d12 = doc_autoTable ev
                  \<lparr>startY = Fin 95,
                   head_rows = [[''Description'', ''Qty'', ''Price'', ''Total'']],
                   body_rows = tableBody ev iv,
                   theme = ''striped'',
                   headStyles_fillColor = (Fin 59, Fin 130, Fin 246),
                   foot_rows =
                     [[[], [], ''Subtotal'', ''$'' @ toFixed (numToString ev) sub 2],
                      [[], [], ''Tax ('' @ numToString ev (taxRate iv) @ ''%)'',
                       ''$'' @ toFixed (numToString ev) tax 2],
                      [[], [], ''Total'', ''$'' @ toFixed (numToString ev) tot 2]],
                   footStyles_fillColor = (Fin 241, Fin 245, Fin 249),
                   footStyles_textColor = (Fin 0, Fin 0, Fin 0),
                   footStyles_fontStyle = ''bold''\<rparr>
                  d11;
          finalY = (case lastAutoTable_finalY d12 of
                      None \<Rightarrow> NaN
                    | Some y \<Rightarrow> num_add y (Fin 10));
          d13 = doc_setFontSize (Fin 10) d12;
          d14 = doc_setTextColor (Fin 100) (Fin 100) (Fin 100) d13;
          d15 = doc_text (Str ''Notes:'') (Fin 14) finalY d14;
          d16 = doc_text (Str (inv_notes iv)) (Fin 14) (num_add finalY (Fin 5)) d15
      in doc_save (inv_id iv @ ''.pdf'') d16)"

text \<open>
  The whole handler: the two load steps, then the generation. A script that fails to
  load rejects its promise, which the outer \<^verbatim>\<open>catch\<close> turns into \<open>pdf_failure\<close>.
  After the first step \<^verbatim>\<open>win.jspdf\<close> is set, so the second step asks only for
  \<^verbatim>\<open>win.jspdf.autoTable\<close>, which a library loaded just now does not have.
\<close>

definition handleDownload ::
  "env \<Rightarrow> string option \<Rightarrow> Invoice \<Rightarrow> number \<Rightarrow> number \<Rightarrow> number \<Rightarrow> event list" where
  "handleDownload ev logo iv sub tax tot =
     (let t1 = (if jspdf_present ev then [] else [ScriptAppended jspdf_url])
      in if \<not> jspdf_present ev \<and> \<not> jspdf_script_loads ev
         then t1 @ pdf_failure ''Failed to load jsPDF''
         else
           let need = (\<not> jspdf_present ev \<or> \<not> autoTable_present ev);
               t2 = t1 @ (if need then [ScriptAppended autoTable_url] else [])
           in if need \<and> \<not> autoTable_script_loads ev
              then t2 @ pdf_failure ''Failed to load autoTable''
              else trace (generate_pdf ev logo iv sub tax tot (new_jsPDF t2)))"

section \<open>The page component (routes/index.tsx): state, render, send\<close>

record app_state =
  isEditing :: bool
  isSending :: bool
  logoUrl :: "string option"
  invoice :: Invoice

text \<open>
  What a render of the component produces, as far as the claims go: the three figures
  of the totals section, the Send button (its \<^verbatim>\<open>disabled\<close> attribute and its label),
  and the click handler of the Download button, a closure over the totals of this
  render.
\<close>

record view =
  subtotal_text :: string
  taxAmount_text :: string
  total_text :: string
  send_disabled :: bool
  send_label :: string
  onDownload :: "event list"

definition render :: "env \<Rightarrow> app_state \<Rightarrow> view" where
  "render ev st =
     (let sub = subtotal (invoice st);
          tax = taxAmount (invoice st);
          tot = total (invoice st)
      in \<lparr>subtotal_text = ''$'' @ toFixed (numToString ev) sub 2,
          taxAmount_text = ''$'' @ toFixed (numToString ev) tax 2,
          total_text = ''$'' @ toFixed (numToString ev) tot 2,
          send_disabled = isSending st,
          send_label = (if isSending st then ''Sending...'' else ''Send Invoice''),
          onDownload = handleDownload ev (logoUrl st) (invoice st) sub tax tot\<rparr>)"

text \<open>
  \<^verbatim>\<open>handleSend$\<close> runs in two parts: up to the \<^verbatim>\<open>await\<close> it sets \<^verbatim>\<open>isSending\<close> and
  starts the 1500 ms timer; when the timer fires it alerts and clears \<^verbatim>\<open>isSending\<close>.
  The page keeps the number of sends whose timer has not fired yet, and the alerts
  shown.
\<close>

record page =
  app :: app_state
  pending_sends :: nat
  alerts :: "string list"

definition handleSend_begin :: "page \<Rightarrow> page" where
  "handleSend_begin p =
     p\<lparr>app := (app p)\<lparr>isSending := True\<rparr>, pending_sends := pending_sends p + 1\<rparr>"

definition handleSend_resume :: "page \<Rightarrow> page" where
  "handleSend_resume p =
     p\<lparr>alerts := alerts p
          @ [''Invoice sent successfully to '' @ email (inv_to (invoice (app p))) @ ''!''],
       app := (app p)\<lparr>isSending := False\<rparr>,
       pending_sends := pending_sends p - 1\<rparr>"

text \<open>
  What can happen to the page: the user clicks Send, which the browser delivers only
  while the button of the current render is not disabled, or the timer of a pending
  send fires. The view is the render of the current state: a change of a signal
  re-renders the component before the next user event.
\<close>

datatype action = ClickSend | TimerFires

definition enabled :: "env \<Rightarrow> page \<Rightarrow> action \<Rightarrow> bool" where
  "enabled ev p a =
     (case a of
        ClickSend \<Rightarrow> \<not> send_disabled (render ev (app p))
      | TimerFires \<Rightarrow> 0 < pending_sends p)"

definition fire :: "page \<Rightarrow> action \<Rightarrow> page" where
  "fire p a = (case a of ClickSend \<Rightarrow> handleSend_begin p | TimerFires \<Rightarrow> handleSend_resume p)"

definition initial_page :: "Invoice \<Rightarrow> page" where
  "initial_page iv =
     \<lparr>app = \<lparr>isEditing = True, isSending = False, logoUrl = None, invoice = iv\<rparr>,
      pending_sends = 0, alerts = []\<rparr>"

inductive reachable :: "env \<Rightarrow> Invoice \<Rightarrow> page \<Rightarrow> bool" for ev :: env and iv :: Invoice where
  start: "reachable ev iv (initial_page iv)"
| step: "reachable ev iv p \<Longrightarrow> enabled ev p a \<Longrightarrow> reachable ev iv (fire p a)"

section \<open>Reading a trace\<close>


text \<open>The position of the first event with a property (the length if there is none).\<close>

fun first_index :: "('a \<Rightarrow> bool) \<Rightarrow> 'a list \<Rightarrow> nat" where
  "first_index P [] = 0"
| "first_index P (x # xs) = (if P x then 0 else Suc (first_index P xs))"

fun is_logo :: "event \<Rightarrow> bool" where
  "is_logo (ImageAdded img fmt x y w h) = True"
| "is_logo e = False"

fun is_warning :: "event \<Rightarrow> bool" where
  "is_warning (ConsoleWarn m err) = True"
| "is_warning e = False"

text \<open>The three lines of the metadata block of an invoice.\<close>

fun is_metadata :: "Invoice \<Rightarrow> event \<Rightarrow> bool" where
  "is_metadata iv (TextDrawn t x y sz c) =
     (t = Str (''Invoice #'' @ inv_id iv) \<or> t = Str (''Date: '' @ createdAt iv)
      \<or> t = Str (''Due Date: '' @ dueDate iv))"
| "is_metadata iv e = False"

section \<open>The layout of the document, block by block\<close>

text \<open>
  The specification side: the page the handler is to produce, written as the sequence
  of its blocks, each a list of the elements a reader of the PDF sees. None of these
  definitions is used by \<open>handleDownload\<close>; the theorems below compare its trace with
  them.
\<close>

definition title_block :: "event list" where
  "title_block =
     [TextDrawn (Str ''INVOICE'') (Fin 14) (Fin 20) (Fin 22) (Fin 40, Fin 40, Fin 40)]"

text \<open>The logo at the top right, or the warning that replaces it when embedding fails.\<close>

definition logo_block :: "env \<Rightarrow> string option \<Rightarrow> event list" where
  "logo_block ev logo =
     (case logo of
        None \<Rightarrow> []
      | Some url \<Rightarrow>
          if url = [] then []
          else
            (case addImage_error ev url of
               None \<Rightarrow> [ImageAdded url ''PNG'' (Fin 150) (Fin 10) (Fin 45) (Fin 15)]
             | Some err \<Rightarrow> [ConsoleWarn ''Could not embed logo in PDF:'' err]))"

definition metadata_block :: "Invoice \<Rightarrow> event list" where
  "metadata_block iv =
     [TextDrawn (Str (''Invoice #'' @ inv_id iv)) (Fin 14) (Fin 30) (Fin 10)
        (Fin 100, Fin 100, Fin 100),
      TextDrawn (Str (''Date: '' @ createdAt iv)) (Fin 14) (Fin 35) (Fin 10)
        (Fin 100, Fin 100, Fin 100),
      TextDrawn (Str (''Due Date: '' @ dueDate iv)) (Fin 14) (Fin 40) (Fin 10)
        (Fin 100, Fin 100, Fin 100)]"

definition address_block :: "env \<Rightarrow> string \<Rightarrow> Address \<Rightarrow> number \<Rightarrow> event list" where
  "address_block ev label data x =
     [TextDrawn (Str label) x (Fin 55) (Fin 12) (Fin 0, Fin 0, Fin 0),
      TextDrawn (Str (name data)) x (Fin 62) (Fin 10) (Fin 60, Fin 60, Fin 60),
      TextDrawn (Str (email data)) x (Fin 67) (Fin 10) (Fin 60, Fin 60, Fin 60),
      TextDrawn (Lines (splitTextToSize ev (Fin 10) (address data) (Fin 80))) x (Fin 72) (Fin 10)
        (Fin 60, Fin 60, Fin 60)]"

text \<open>
  The items table: the header row, one body row per line item, and the three footer
  rows with the figures \<open>sub\<close>, \<open>tax\<close> and \<open>tot\<close> printed by \<^verbatim>\<open>toFixed(2)\<close>.
\<close>

definition items_table :: "env \<Rightarrow> Invoice \<Rightarrow> number \<Rightarrow> number \<Rightarrow> number \<Rightarrow> table_options" where
  "items_table ev iv sub tax tot =
     \<lparr>startY = Fin 95,
      head_rows = [[''Description'', ''Qty'', ''Price'', ''Total'']],
      body_rows = map (\<lambda>item. [description item, numToString ev (quantity item),
                                ''$'' @ toFixed (numToString ev) (price item) 2,
                                ''$'' @ toFixed (numToString ev) (line_total item) 2])
                      (items iv),
      theme = ''striped'',
      headStyles_fillColor = (Fin 59, Fin 130, Fin 246),
      foot_rows =
        [[[], [], ''Subtotal'', ''$'' @ toFixed (numToString ev) sub 2],
         [[], [], ''Tax ('' @ numToString ev (taxRate iv) @ ''%)'',
          ''$'' @ toFixed (numToString ev) tax 2],
         [[], [], ''Total'', ''$'' @ toFixed (numToString ev) tot 2]],
      footStyles_fillColor = (Fin 241, Fin 245, Fin 249),
      footStyles_textColor = (Fin 0, Fin 0, Fin 0),
      footStyles_fontStyle = ''bold''\<rparr>"

text \<open>
  The notes: the label at the y where the table engine reports the table to end plus
  the margin 10, the text 5 below the label.
\<close>

definition notes_block :: "number \<Rightarrow> Invoice \<Rightarrow> event list" where
  "notes_block table_end iv =
     [TextDrawn (Str ''Notes:'') (Fin 14) (num_add table_end (Fin 10)) (Fin 10)
        (Fin 100, Fin 100, Fin 100),
      TextDrawn (Str (inv_notes iv)) (Fin 14) (num_add (num_add table_end (Fin 10)) (Fin 5))
        (Fin 10) (Fin 100, Fin 100, Fin 100)]"

text \<open>Everything after the logo: metadata, the two addresses, the table, the notes, the download.\<close>

definition after_logo :: "env \<Rightarrow> Invoice \<Rightarrow> number \<Rightarrow> number \<Rightarrow> number \<Rightarrow> event list" where
  "after_logo ev iv sub tax tot =
     metadata_block iv
     @ address_block ev ''FROM:'' (inv_from iv) (Fin 14)
     @ address_block ev ''TO:'' (inv_to iv) (Fin 120)
     @ [TableDrawn (items_table ev iv sub tax tot)]
     @ notes_block (table_finalY ev (items_table ev iv sub tax tot)) iv
     @ [Saved (inv_id iv @ ''.pdf'')]"

definition layout :: "env \<Rightarrow> string option \<Rightarrow> Invoice \<Rightarrow> number \<Rightarrow> number \<Rightarrow> number \<Rightarrow> event list" where
  "layout ev logo iv sub tax tot = title_block @ logo_block ev logo @ after_logo ev iv sub tax tot"

text \<open>The two libraries are there or can be loaded; the script tags the handler appends.\<close>

definition libraries_ready :: "env \<Rightarrow> bool" where
  "libraries_ready ev =
     ((jspdf_present ev \<or> jspdf_script_loads ev)
      \<and> (jspdf_present ev \<and> autoTable_present ev \<or> autoTable_script_loads ev))"

definition script_events :: "env \<Rightarrow> event list" where
  "script_events ev =
     (if jspdf_present ev then [] else [ScriptAppended jspdf_url])
     @ (if jspdf_present ev \<and> autoTable_present ev then [] else [ScriptAppended autoTable_url])"

text \<open>
  An environment to run the handler in: both libraries loaded, \<^verbatim>\<open>addImage\<close> accepting
  PNG data URLs and throwing for anything else, no line breaking, a table that ends at
  y = 120, and a \<^verbatim>\<open>Number::toString\<close> that is right on the integers below \<open>10^21\<close>.
\<close>

definition sample_env :: env where
  "sample_env =
     \<lparr>jspdf_present = True, autoTable_present = True,
      jspdf_script_loads = True, autoTable_script_loads = True,
      addImage_error = (\<lambda>img. if take 14 img = ''data:image/png'' then None
                              else Some ''Error: wrong image type''),
      splitTextToSize = (\<lambda>sz s w. [s]),
      table_finalY = (\<lambda>opts. Fin 120),
      numToString = (\<lambda>x. toFixed (\<lambda>y. ''1e+21'') x 0)\<rparr>"

definition sample_invoice :: Invoice where
  "sample_invoice = initial_invoice ''INV-20261234'' ''2026-11-02'' ''2026-11-16''"

section \<open>Rounding to binary64: the rounding is to a nearest double\<close>

lemma bit_length_upper: "n < 2 ^ bit_length n"
proof (induction n rule: bit_length.induct)
  case (1 n)
  show ?case
  proof (cases "n \<le> 0")
    case True
    then show ?thesis by (simp add: bit_length.simps [of n])
  next
    case False
    with 1 have "n div 2 < 2 ^ bit_length (n div 2)" by simp
    then have "n < 2 * 2 ^ bit_length (n div 2)" by linarith
    with False show ?thesis by (simp add: bit_length.simps [of n])
  qed
qed

lemma bit_length_pos: "0 < n \<Longrightarrow> 0 < bit_length n"
  by (simp add: bit_length.simps [of n])

lemma bit_length_lower: "0 < n \<Longrightarrow> 2 ^ (bit_length n - 1) \<le> n"
proof (induction n rule: bit_length.induct)
  case (1 n)
  then have npos: "\<not> n \<le> 0" by simp
  show ?case
  proof (cases "n div 2 \<le> 0")
    case True
    with npos show ?thesis
      by (simp add: bit_length.simps [of n] bit_length.simps [of "n div 2"] bit_length.simps [of 0])
  next
    case False
    with 1 npos have ih: "2 ^ (bit_length (n div 2) - 1) \<le> n div 2" by simp
    from False have "0 < bit_length (n div 2)" by (simp add: bit_length_pos)
    then obtain k where k: "bit_length (n div 2) = Suc k" by (cases "bit_length (n div 2)") auto
    with ih have "2 ^ k \<le> n div 2" by simp
    then have "2 * 2 ^ k \<le> n" by linarith
    with npos k show ?thesis by (simp add: bit_length.simps [of n])
  qed
qed

lemma floor_log2_bounds:
  assumes "0 < x"
  shows "2 powi floor_log2 x \<le> x" and "x < 2 powi (floor_log2 x + 1)"
proof -
  show "2 powi floor_log2 x \<le> x"
  proof (cases "1 \<le> x")
    case True
    then have fl: "0 < \<lfloor>x\<rfloor>" by (simp add: less_floor_iff)
    have "2 ^ (bit_length \<lfloor>x\<rfloor> - 1) \<le> \<lfloor>x\<rfloor>" using fl by (rule bit_length_lower)
    then have "(of_int (2 ^ (bit_length \<lfloor>x\<rfloor> - 1)) :: rat) \<le> of_int \<lfloor>x\<rfloor>"
      by (simp only: of_int_le_iff)
    then have "(2::rat) ^ (bit_length \<lfloor>x\<rfloor> - 1) \<le> of_int \<lfloor>x\<rfloor>" by simp
    moreover have "of_int \<lfloor>x\<rfloor> \<le> x" by (rule of_int_floor_le)
    ultimately have "(2::rat) ^ (bit_length \<lfloor>x\<rfloor> - 1) \<le> x" by linarith
    moreover have "floor_log2 x = int (bit_length \<lfloor>x\<rfloor> - 1)"
      using True bit_length_pos [OF fl] by (simp add: floor_log2_def)
    ultimately show ?thesis by simp
  next
    case False
    define m where "m = \<lceil>1 / x\<rceil> - 1"
    have "1 / x \<le> of_int \<lceil>1 / x\<rceil>" by (rule le_of_int_ceiling)
    then have "1 / x \<le> of_int m + 1" by (simp add: m_def)
    moreover have "m < 2 ^ bit_length m" by (rule bit_length_upper)
    then have "m + 1 \<le> 2 ^ bit_length m" by simp
    then have "(of_int (m + 1) :: rat) \<le> of_int (2 ^ bit_length m)" by (simp only: of_int_le_iff)
    then have "(of_int m + 1 :: rat) \<le> 2 ^ bit_length m" by simp
    ultimately have "1 / x \<le> 2 ^ bit_length m" by linarith
    then have "1 \<le> 2 ^ bit_length m * x" using assms by (simp add: divide_le_eq)
    then have "1 / 2 ^ bit_length m \<le> x" by (simp add: divide_le_eq mult.commute)
    moreover have "floor_log2 x = - int (bit_length m)" using False by (simp add: floor_log2_def m_def)
    ultimately show ?thesis by (simp add: power_int_minus inverse_eq_divide)
  qed
  show "x < 2 powi (floor_log2 x + 1)"
  proof (cases "1 \<le> x")
    case True
    have "\<lfloor>x\<rfloor> < 2 ^ bit_length \<lfloor>x\<rfloor>" by (rule bit_length_upper)
    then have "\<lfloor>x\<rfloor> + 1 \<le> 2 ^ bit_length \<lfloor>x\<rfloor>" by simp
    then have "(of_int (\<lfloor>x\<rfloor> + 1) :: rat) \<le> of_int (2 ^ bit_length \<lfloor>x\<rfloor>)"
      by (simp only: of_int_le_iff)
    then have "(of_int \<lfloor>x\<rfloor> + 1 :: rat) \<le> 2 ^ bit_length \<lfloor>x\<rfloor>" by simp
    moreover have "x < of_int \<lfloor>x\<rfloor> + 1" by linarith
    ultimately have "x < 2 ^ bit_length \<lfloor>x\<rfloor>" by linarith
    moreover have "floor_log2 x + 1 = int (bit_length \<lfloor>x\<rfloor>)"
      using True by (simp add: floor_log2_def)
    ultimately show ?thesis by simp
  next
    case False
    define m where "m = \<lceil>1 / x\<rceil> - 1"
    from False assms have "1 < 1 / x" by simp
    then have "1 < \<lceil>1 / x\<rceil>" by (simp add: less_ceiling_iff)
    then have mpos: "0 < m" by (simp add: m_def)
    then obtain k where k: "bit_length m = Suc k"
      using bit_length_pos [OF mpos] by (cases "bit_length m") auto
    have "2 ^ (bit_length m - 1) \<le> m" using mpos by (rule bit_length_lower)
    then have "2 ^ k \<le> m" using k by simp
    then have "(of_int (2 ^ k) :: rat) \<le> of_int m" by (simp only: of_int_le_iff)
    then have "(2::rat) ^ k \<le> of_int m" by simp
    moreover have "(of_int m :: rat) = of_int \<lceil>1 / x\<rceil> - 1" by (simp add: m_def)
    moreover have "of_int \<lceil>1 / x\<rceil> - 1 < 1 / x" by linarith
    ultimately have "(2::rat) ^ k < 1 / x" by linarith
    then have "2 ^ k * x < 1" using assms by (simp add: less_divide_eq)
    then have "x < 1 / 2 ^ k" by (simp add: less_divide_eq mult.commute)
    moreover have "floor_log2 x + 1 = - int k" using False k by (simp add: floor_log2_def m_def)
    ultimately show ?thesis by (simp add: power_int_minus inverse_eq_divide)
  qed
qed

lemma floor_log2_unique:
  assumes "2 powi e \<le> x" and "x < 2 powi (e + 1)"
  shows "floor_log2 x = e"
proof -
  have "(0::rat) < 2 powi e" by simp
  with assms have pos: "0 < x" by linarith
  note b = floor_log2_bounds [OF pos]
  have "\<not> e < floor_log2 x"
  proof
    assume "e < floor_log2 x"
    then have "e + 1 \<le> floor_log2 x" by simp
    then have "(2::rat) powi (e + 1) \<le> 2 powi floor_log2 x" by (simp add: power_int_increasing)
    with b(1) assms(2) show False by linarith
  qed
  moreover have "\<not> floor_log2 x < e"
  proof
    assume "floor_log2 x < e"
    then have "floor_log2 x + 1 \<le> e" by simp
    then have "(2::rat) powi (floor_log2 x + 1) \<le> 2 powi e" by (simp add: power_int_increasing)
    with b(2) assms(1) show False by linarith
  qed
  ultimately show ?thesis by linarith
qed

lemma floor_rat_numeral: "\<lfloor>(numeral a :: rat) / numeral b\<rfloor> = numeral a div numeral b"
  using floor_divide_of_int_eq [of "numeral a" "numeral b", where ?'a = rat] by simp

lemma round_half_even_bounds: "\<lfloor>n\<rfloor> \<le> round_half_even n" "round_half_even n \<le> \<lceil>n\<rceil>"
proof -
  show "\<lfloor>n\<rfloor> \<le> round_half_even n" by (simp add: round_half_even_def Let_def)
  show "round_half_even n \<le> \<lceil>n\<rceil>"
  proof (cases "n = of_int \<lfloor>n\<rfloor>")
    case True
    then have "n - of_int \<lfloor>n\<rfloor> = 0" by simp
    then have "round_half_even n = \<lfloor>n\<rfloor>" by (simp add: round_half_even_def Let_def)
    then show ?thesis by (simp add: floor_le_ceiling)
  next
    case False
    then have "\<lceil>n\<rceil> = \<lfloor>n\<rfloor> + 1" by (simp add: ceiling_altdef)
    then show ?thesis by (simp add: round_half_even_def Let_def)
  qed
qed

lemma round_binary64_normal:
  assumes lo: "2 powi e \<le> x" and hi: "x < 2 powi (e + 1)"
    and e1: "- 1022 \<le> e" and e2: "e \<le> 1022"
  shows "round_binary64 x = Fin (of_int (round_half_even (x / 2 powi (e - 52))) * 2 powi (e - 52))"
proof -
  define q :: rat where "q = 2 powi (e - 52)"
  define m where "m = round_half_even (x / q)"
  have qpos: "0 < q" by (simp add: q_def)
  have "(0::rat) < 2 powi e" by simp
  with lo have xpos: "0 < x" by linarith
  have fl: "floor_log2 x = e" using lo hi by (rule floor_log2_unique)
  have qu: "quantum x = q" using e1 by (simp add: quantum_def fl q_def max_def)
  have q52: "2 powi e = 2 ^ 52 * q"
  proof -
    have "e = 52 + (e - 52)" by simp
    then have "(2::rat) powi e = 2 powi (52 + (e - 52))" by (rule arg_cong)
    also have "\<dots> = 2 powi 52 * 2 powi (e - 52)" by (rule power_int_add) simp
    finally show ?thesis by (simp add: q_def)
  qed
  have q53: "2 powi (e + 1) = 2 ^ 53 * q"
  proof -
    have "e + 1 = 53 + (e - 52)" by simp
    then have "(2::rat) powi (e + 1) = 2 powi (53 + (e - 52))" by (rule arg_cong)
    also have "\<dots> = 2 powi 53 * 2 powi (e - 52)" by (rule power_int_add) simp
    finally show ?thesis by (simp add: q_def)
  qed
  from lo q52 qpos have "(of_int (2 ^ 52) :: rat) \<le> x / q" by (simp add: le_divide_eq)
  then have "2 ^ 52 \<le> \<lfloor>x / q\<rfloor>" by (simp only: le_floor_iff)
  with round_half_even_bounds(1) [of "x / q"] have mlo: "2 ^ 52 \<le> m" unfolding m_def by linarith
  then have mpos: "0 < m" by (smt (verit) zero_less_power)
  from hi q53 qpos have "x / q \<le> of_int (2 ^ 53)" by (simp add: divide_le_eq)
  then have "\<lceil>x / q\<rceil> \<le> 2 ^ 53" by (simp only: ceiling_le_iff)
  with round_half_even_bounds(2) [of "x / q"] have "m \<le> 2 ^ 53" unfolding m_def by linarith
  then have "(of_int m :: rat) \<le> of_int (2 ^ 53)" by (simp only: of_int_le_iff)
  then have "(of_int m :: rat) \<le> 2 ^ 53" by simp
  with qpos have "of_int m * q \<le> 2 ^ 53 * q" by (simp add: mult_right_mono)
  also have "\<dots> = 2 powi (e + 1)" by (simp add: q53)
  also have "\<dots> \<le> 2 powi 1023" using e2 by (intro power_int_increasing) simp_all
  also have "\<dots> < 2 powi 1024" by (intro power_int_strict_increasing) simp_all
  finally have ybound: "\<not> 2 powi 1024 \<le> of_int m * q" by simp
  have ypos: "of_int m * q \<noteq> 0" using mpos qpos by simp
  show ?thesis
    using xpos ybound ypos
    by (simp add: round_binary64_def Let_def qu abs_of_pos q_def [symmetric] m_def [symmetric]
        signed_inf_def signed_zero_def)
qed

text \<open>In the normal range the rounding error is at most half the spacing of the doubles.\<close>

lemma round_half_even_error: "\<bar>of_int (round_half_even n) - n\<bar> \<le> 1 / 2"
proof -
  have "of_int \<lfloor>n\<rfloor> \<le> n" "n < of_int \<lfloor>n\<rfloor> + 1" by linarith+
  then show ?thesis by (auto simp add: round_half_even_def Let_def abs_le_iff)
qed

lemma round_binary64_error:
  assumes "2 powi e \<le> x" and "x < 2 powi (e + 1)" and "- 1022 \<le> e" and "e \<le> 1022"
  shows "\<bar>mv (round_binary64 x) - x\<bar> \<le> 2 powi (e - 53)"
proof -
  define q :: rat where "q = 2 powi (e - 52)"
  have qpos: "0 < q" by (simp add: q_def)
  have half: "q / 2 = 2 powi (e - 53)"
  proof -
    have "e - 52 = (e - 53) + 1" by simp
    then have "(2::rat) powi (e - 52) = 2 powi ((e - 53) + 1)" by (rule arg_cong)
    also have "\<dots> = 2 powi (e - 53) * 2 powi 1" by (rule power_int_add) simp
    finally show ?thesis by (simp add: q_def)
  qed
  have "mv (round_binary64 x) - x = (of_int (round_half_even (x / q)) - x / q) * q"
    using qpos by (simp add: round_binary64_normal [OF assms] q_def [symmetric] left_diff_distrib)
  then have "\<bar>mv (round_binary64 x) - x\<bar> = \<bar>of_int (round_half_even (x / q)) - x / q\<bar> * q"
    using qpos by (simp add: abs_mult)
  also have "\<dots> \<le> (1 / 2) * q"
    using round_half_even_error [of "x / q"] qpos by (intro mult_right_mono) simp_all
  finally show ?thesis using half by simp
qed

section \<open>Line items: theorems\<close>

lemma trunc_rat_of_nat: "trunc_rat (of_nat n) = int n"
  by (simp add: trunc_rat_def)

lemma actualStart_at_length: "actualStart (length xs) (Fin (of_nat (length xs))) = length xs"
  by (simp add: trunc_rat_of_nat)

lemma trunc_rat_ge: "of_nat n \<le> r \<Longrightarrow> int n \<le> trunc_rat r"
proof -
  assume h: "of_nat n \<le> r"
  have "(0::rat) \<le> of_nat n" by simp
  with h have "\<not> r < 0" by linarith
  moreover from h have "int n \<le> \<lfloor>r\<rfloor>" by (simp add: le_floor_iff)
  ultimately show ?thesis by (simp add: trunc_rat_def)
qed

lemma actualStart_beyond: "of_nat len \<le> r \<Longrightarrow> actualStart len (Fin r) = len"
proof -
  assume "of_nat len \<le> r"
  then have "int len \<le> trunc_rat r" by (rule trunc_rat_ge)
  then show ?thesis by (auto simp: Let_def min_def)
qed


text \<open>
  Claim C10. For an index that is at least the number of items, \<^verbatim>\<open>removeItem$\<close> leaves
  the sequence as it is: \<^verbatim>\<open>splice\<close> clamps the start to the length and the delete
  count to zero.
\<close>

theorem remove_out_of_range_noop:
  "of_nat (length its) \<le> r \<Longrightarrow> removeItem (Fin r) its = its"
  by (simp add: removeItem_def splice_def actualStart_beyond del: actualStart.simps)

theorem remove_out_of_range_noop_witness:
  "of_nat (length [\<lparr>item_id = Fin 1, description = ''a'', quantity = Fin 2, price = Fin 3\<rparr>]) \<le> (5::rat)
   \<and> removeItem (Fin 5) [\<lparr>item_id = Fin 1, description = ''a'', quantity = Fin 2, price = Fin 3\<rparr>]
     = [\<lparr>item_id = Fin 1, description = ''a'', quantity = Fin 2, price = Fin 3\<rparr>]"
  using remove_out_of_range_noop
    [of "[\<lparr>item_id = Fin 1, description = ''a'', quantity = Fin 2, price = Fin 3\<rparr>]" 5]
  by simp

lemma addItem_new_item:
  "last (addItem now its) = \<lparr>item_id = now, description = [], quantity = Fin 1, price = Fin 0\<rparr>"
  "butlast (addItem now its) = its"
  by (simp_all add: addItem_def)

lemma addItem_fresh_if_clock_fresh:
  "distinct (map item_id its) \<Longrightarrow> now \<notin> set (map item_id its)
   \<Longrightarrow> distinct (map item_id (addItem now its))"
  by (simp add: addItem_def)

text \<open>
  Claim C6 (the code at the failing input). Two calls of \<^verbatim>\<open>addItem$\<close> that read the same
  clock value give two items with the same id: the id of the second item is not fresh.
\<close>

theorem addItem_same_tick_duplicate_id:
  "map item_id (addItem (Fin 1700000000000) (addItem (Fin 1700000000000) []))
     = [Fin 1700000000000, Fin 1700000000000]
   \<and> \<not> distinct (map item_id (addItem (Fin 1700000000000) (addItem (Fin 1700000000000) [])))"
  by (simp add: addItem_def)

section \<open>Totals: theorems\<close>

lemmas eval_round = round_half_even_def floor_rat_numeral Let_def

lemma mul_10_85: "num_mul (Fin 10) (Fin 85) = Fin 850"
  using round_binary64_normal [of 9 850] by (simp add: num_mul_def eval_round)

lemma mul_2_150: "num_mul (Fin 2) (Fin 150) = Fin 300"
  using round_binary64_normal [of 8 300] by (simp add: num_mul_def eval_round)

lemma add_0_850: "num_add (Fin 0) (Fin 850) = Fin 850"
  using round_binary64_normal [of 9 850] by (simp add: num_add_def eval_round)

lemma add_850_300: "num_add (Fin 850) (Fin 300) = Fin 1150"
  using round_binary64_normal [of 10 1150] by (simp add: num_add_def eval_round)

lemma div_8_100: "num_div (Fin 8) (Fin 100) = Fin (5764607523034235 / 72057594037927936)"
  using round_binary64_normal [of "- 4" "2 / 25"] by (simp add: num_div_def eval_round)

lemma mul_1150_8_percent:
  "num_mul (Fin 1150) (Fin (5764607523034235 / 72057594037927936)) = Fin 92"
  using round_binary64_normal [of 6 "1150 * (5764607523034235 / 72057594037927936)"]
  by (simp add: num_mul_def eval_round)

lemma add_1150_92: "num_add (Fin 1150) (Fin 92) = Fin 1242"
  using round_binary64_normal [of 10 1242] by (simp add: num_add_def eval_round)

lemma mul_3_1: "num_mul (Fin 3) (Fin 1) = Fin 3"
  using round_binary64_normal [of 1 3] by (simp add: num_mul_def eval_round)

lemma add_0_3: "num_add (Fin 0) (Fin 3) = Fin 3"
  using round_binary64_normal [of 1 3] by (simp add: num_add_def eval_round)

lemma div_19_100: "num_div (Fin 19) (Fin 100) = Fin (3422735716801577 / 18014398509481984)"
  using round_binary64_normal [of "- 3" "19 / 100"] by (simp add: num_div_def eval_round)

lemma mul_3_19_percent:
  "num_mul (Fin 3) (Fin (3422735716801577 / 18014398509481984))
     = Fin (2567051787601183 / 4503599627370496)"
  using round_binary64_normal [of "- 1" "3 * (3422735716801577 / 18014398509481984)"]
  by (simp add: num_mul_def eval_round)

lemma mul_3_19: "num_mul (Fin 3) (Fin 19) = Fin 57"
  using round_binary64_normal [of 5 57] by (simp add: num_mul_def eval_round)

lemma div_57_100: "num_div (Fin 57) (Fin 100) = Fin (5134103575202365 / 9007199254740992)"
  using round_binary64_normal [of "- 1" "57 / 100"] by (simp add: num_div_def eval_round)

lemma add_3_tax_code:
  "num_add (Fin 3) (Fin (2567051787601183 / 4503599627370496))
     = Fin (502432833428521 / 140737488355328)"
  using round_binary64_normal [of 1 "3 + 2567051787601183 / 4503599627370496"]
  by (simp add: num_add_def eval_round)

lemma add_3_tax_spec:
  "num_add (Fin 3) (Fin (5134103575202365 / 9007199254740992))
     = Fin (8038925334856335 / 2251799813685248)"
  using round_binary64_normal [of 1 "3 + 5134103575202365 / 9007199254740992"]
  by (simp add: num_add_def eval_round)

lemma subtotal_one:
  "items iv = [a] \<Longrightarrow> subtotal iv = num_add (Fin 0) (num_mul (quantity a) (price a))"
  by (simp add: subtotal_def)

lemma subtotal_two:
  "items iv = [a, b] \<Longrightarrow>
   subtotal iv = num_add (num_add (Fin 0) (num_mul (quantity a) (price a)))
                         (num_mul (quantity b) (price b))"
  by (simp add: subtotal_def)

lemma example_values:
  assumes "map (\<lambda>it. (quantity it, price it)) (items iv) = [(Fin 10, Fin 85), (Fin 2, Fin 150)]"
    and "taxRate iv = Fin 8"
  shows "subtotal iv = Fin 1150" and "taxAmount iv = Fin 92" and "total iv = Fin 1242"
proof -
  from assms(1) obtain a b where ab: "items iv = [a, b]"
    and a: "quantity a = Fin 10" "price a = Fin 85"
    and b: "quantity b = Fin 2" "price b = Fin 150"
    by auto
  show s: "subtotal iv = Fin 1150"
    by (simp add: subtotal_two [OF ab] a b mul_10_85 mul_2_150 add_0_850 add_850_300)
  show t: "taxAmount iv = Fin 92"
    by (simp add: taxAmount_def s assms(2) div_8_100 mul_1150_8_percent)
  show "total iv = Fin 1242"
    by (simp add: total_def s t add_1150_92)
qed

lemma toFixed_1150: "toFixed nts (Fin 1150) 2 = ''1150.00''"
  by (simp add: toFixed_def Let_def floor_rat_numeral int_to_digits.simps digit_char_def)

lemma toFixed_92: "toFixed nts (Fin 92) 2 = ''92.00''"
  by (simp add: toFixed_def Let_def floor_rat_numeral int_to_digits.simps digit_char_def)

lemma toFixed_1242: "toFixed nts (Fin 1242) 2 = ''1242.00''"
  by (simp add: toFixed_def Let_def floor_rat_numeral int_to_digits.simps digit_char_def)

lemma vat_example_is_binary64:
  "list_all (\<lambda>it. is_binary64 (quantity it) \<and> is_binary64 (price it)) (items vat_example)
   \<and> is_binary64 (taxRate vat_example) \<and> is_binary64 (Fin 100)"
  using round_binary64_normal [of 1 3] round_binary64_normal [of 0 1]
    round_binary64_normal [of 4 19] round_binary64_normal [of 6 100]
  by (simp add: vat_example_def is_binary64_def eval_round)

lemma vat_example_values:
  assumes "items iv = [\<lparr>item_id = Fin 1, description = ''Hosting'', quantity = Fin 3, price = Fin 1\<rparr>]"
    and "taxRate iv = Fin 19"
  shows "subtotal iv = Fin 3"
    and "taxAmount iv = Fin (2567051787601183 / 4503599627370496)"
    and "num_div (num_mul (subtotal iv) (taxRate iv)) (Fin 100)
           = Fin (5134103575202365 / 9007199254740992)"
    and "total iv = Fin (502432833428521 / 140737488355328)"
    and "num_add (subtotal iv) (num_div (num_mul (subtotal iv) (taxRate iv)) (Fin 100))
           = Fin (8038925334856335 / 2251799813685248)"
proof -
  show s: "subtotal iv = Fin 3"
    by (simp add: subtotal_one [OF assms(1)] mul_3_1 add_0_3)
  show t: "taxAmount iv = Fin (2567051787601183 / 4503599627370496)"
    by (simp add: taxAmount_def s assms(2) div_19_100 mul_3_19_percent)
  show u: "num_div (num_mul (subtotal iv) (taxRate iv)) (Fin 100)
             = Fin (5134103575202365 / 9007199254740992)"
    by (simp add: s assms(2) mul_3_19 div_57_100)
  show "total iv = Fin (502432833428521 / 140737488355328)"
    by (simp add: total_def s t add_3_tax_code)
  show "num_add (subtotal iv) (num_div (num_mul (subtotal iv) (taxRate iv)) (Fin 100))
          = Fin (8038925334856335 / 2251799813685248)"
    by (simp only: u) (simp add: s add_3_tax_spec)
qed

text \<open>
  Claim C1, as the code computes it. On every render, for every invoice: the subtotal is
  the sum, taken from left to right starting at \<open>0\<close>, of the line totals
  \<open>quantity \<times> price\<close>; the tax amount is the subtotal times the quotient
  \<open>taxRate / 100\<close>, that quotient being rounded to a double first; the total is the
  subtotal plus the tax amount. Every operation is the binary64 operation.
\<close>

theorem totals_as_computed:
  "subtotal iv = sum_numbers (map line_total (items iv))
   \<and> taxAmount iv = num_mul (subtotal iv) (num_div (taxRate iv) (Fin 100))
   \<and> total iv = num_add (subtotal iv) (taxAmount iv)
   \<and> total iv = num_add (subtotal iv) (num_mul (subtotal iv) (num_div (taxRate iv) (Fin 100)))"
proof -
  have "foldl (\<lambda>sum item. num_add sum (num_mul (quantity item) (price item))) z its
          = foldl num_add z (map line_total its)" for z its
    by (induction its arbitrary: z) (simp_all add: line_total_def)
  then have "subtotal iv = sum_numbers (map line_total (items iv))"
    by (simp add: subtotal_def sum_numbers_def)
  then show ?thesis by (simp add: taxAmount_def total_def)
qed

text \<open>
  Claim C1 as stated fails: the tax amount is not \<open>subtotal \<times> taxRate / 100\<close>. For three
  units at 1.00 and a tax rate of 19, the code's tax amount is the double
  0.5700000000000001 and its total 3.5700000000000003, while \<open>(3 \<times> 19) / 100\<close> is the
  double 0.57 and \<open>3 + 0.57\<close> the double 3.57.
\<close>

theorem tax_formula_counterexample:
  "\<not> (subtotal vat_example = sum_numbers (map line_total (items vat_example))
       \<and> taxAmount vat_example
           = num_div (num_mul (subtotal vat_example) (taxRate vat_example)) (Fin 100)
       \<and> total vat_example = num_add (subtotal vat_example) (taxAmount vat_example))
   \<and> \<not> (total vat_example
         = num_add (subtotal vat_example)
             (num_div (num_mul (subtotal vat_example) (taxRate vat_example)) (Fin 100)))"
proof -
  have i: "items vat_example
             = [\<lparr>item_id = Fin 1, description = ''Hosting'', quantity = Fin 3, price = Fin 1\<rparr>]"
    and r: "taxRate vat_example = Fin 19"
    by (simp_all add: vat_example_def)
  note v = vat_example_values [OF i r]
  have "taxAmount vat_example
          \<noteq> num_div (num_mul (subtotal vat_example) (taxRate vat_example)) (Fin 100)"
    by (simp only: v(2) v(3)) simp
  moreover have "total vat_example
          \<noteq> num_add (subtotal vat_example)
               (num_div (num_mul (subtotal vat_example) (taxRate vat_example)) (Fin 100))"
    by (simp only: v(4) v(5)) simp
  ultimately show ?thesis by simp
qed

text \<open>
  Claim C8. For the items \<open>[(10, 85.00), (2, 150.00)]\<close> and the tax rate 8 the totals are
  the doubles 1150, 92 and 1242, and \<^verbatim>\<open>toFixed(2)\<close> prints them as \<^verbatim>\<open>1150.00\<close>,
  \<^verbatim>\<open>92.00\<close> and \<^verbatim>\<open>1242.00\<close>, on the screen and in the PDF footer alike.
\<close>

theorem example_totals:
  assumes "map (\<lambda>it. (quantity it, price it)) (items iv) = [(Fin 10, Fin 85), (Fin 2, Fin 150)]"
    and "taxRate iv = Fin 8"
  shows "toFixed nts (subtotal iv) 2 = ''1150.00''
       \<and> toFixed nts (taxAmount iv) 2 = ''92.00''
       \<and> toFixed nts (total iv) 2 = ''1242.00''"
  by (simp add: example_values [OF assms] toFixed_1150 toFixed_92 toFixed_1242)

theorem example_totals_witness:
  "map (\<lambda>it. (quantity it, price it))
       (items (initial_invoice ''INV-20261234'' ''2026-11-02'' ''2026-11-16''))
     = [(Fin 10, Fin 85), (Fin 2, Fin 150)]
   \<and> taxRate (initial_invoice ''INV-20261234'' ''2026-11-02'' ''2026-11-16'') = Fin 8
   \<and> toFixed (\<lambda>x. []) (subtotal (initial_invoice ''INV-20261234'' ''2026-11-02'' ''2026-11-16'')) 2
       = ''1150.00''
   \<and> toFixed (\<lambda>x. []) (taxAmount (initial_invoice ''INV-20261234'' ''2026-11-02'' ''2026-11-16'')) 2
       = ''92.00''
   \<and> toFixed (\<lambda>x. []) (total (initial_invoice ''INV-20261234'' ''2026-11-02'' ''2026-11-16'')) 2
       = ''1242.00''"
proof -
  have a: "map (\<lambda>it. (quantity it, price it))
             (items (initial_invoice ''INV-20261234'' ''2026-11-02'' ''2026-11-16''))
           = [(Fin 10, Fin 85), (Fin 2, Fin 150)]"
    by (simp add: initial_invoice_def)
  have b: "taxRate (initial_invoice ''INV-20261234'' ''2026-11-02'' ''2026-11-16'') = Fin 8"
    by (simp add: initial_invoice_def)
  show ?thesis using a b example_totals [OF a b, of "\<lambda>x. []"] by simp
qed

section \<open>Input coercion: theorems\<close>

lemma or_zero_not_NaN: "or_zero x \<noteq> NaN"
  by (cases x) (simp_all add: or_zero_def to_boolean_def)



lemma quantity_onInput_never_NaN: "quantity (quantity_onInput v item) \<noteq> NaN"
  by (simp add: quantity_onInput_def or_zero_not_NaN)

lemma price_onInput_never_NaN: "price (price_onInput v item) \<noteq> NaN"
  by (simp add: price_onInput_def or_zero_not_NaN)

lemma taxRate_onInput_empty: "taxRate (taxRate_onInput [] iv) = Fin 0"
  by (simp add: taxRate_onInput_def)

lemma parseFloat_empty: "parseFloat [] = NaN"
  by (simp add: parseFloat_def scan_StrDecimalLiteral_def scan_unsigned_decimal_def)





section \<open>The download handler: theorems\<close>

lemma generate_pdf_trace:
  "trace (generate_pdf ev logo iv sub tax tot (new_jsPDF t0)) = t0 @ layout ev logo iv sub tax tot"
  unfolding generate_pdf_def printAddress_def Let_def
  by (simp add: new_jsPDF_def doc_setFontSize_def doc_setTextColor_def doc_text_def emit_def
        doc_addImage_def doc_autoTable_def doc_save_def tableBody_def
        layout_def title_block_def logo_block_def after_logo_def metadata_block_def
        address_block_def items_table_def notes_block_def line_total_def
      split: option.splits)

lemma handleDownload_ready:
  "libraries_ready ev \<Longrightarrow>
   handleDownload ev logo iv sub tax tot = script_events ev @ layout ev logo iv sub tax tot"
  by (auto simp add: handleDownload_def libraries_ready_def script_events_def
      generate_pdf_trace Let_def)



lemma sample_env_ready: "libraries_ready sample_env"
  by (simp add: libraries_ready_def sample_env_def)



text \<open>
  Claim C3, in the order the code draws. Whenever the two libraries are available, the
  handler produces, after the script tags it had to append: the title; the logo, if
  there is one (or the warning that it could not be embedded); the metadata block
  (invoice id, creation date, due date); the FROM and the TO address block; the items
  table with its header row, one body row per line item and three footer rows; the
  notes, the label at the y where the table engine reports the table to end plus 10 and
  the text 5 below; and last the download of \<^verbatim>\<open><invoice.id>.pdf\<close>.
\<close>

theorem download_layout:
  assumes "libraries_ready ev"
  shows "handleDownload ev logo iv sub tax tot
           = script_events ev
             @ title_block
             @ logo_block ev logo
             @ metadata_block iv
             @ address_block ev ''FROM:'' (inv_from iv) (Fin 14)
             @ address_block ev ''TO:'' (inv_to iv) (Fin 120)
             @ [TableDrawn (items_table ev iv sub tax tot)]
             @ notes_block (table_finalY ev (items_table ev iv sub tax tot)) iv
             @ [Saved (inv_id iv @ ''.pdf'')]
         \<and> head_rows (items_table ev iv sub tax tot)
             = [[''Description'', ''Qty'', ''Price'', ''Total'']]
         \<and> length (body_rows (items_table ev iv sub tax tot)) = length (items iv)
         \<and> length (foot_rows (items_table ev iv sub tax tot)) = 3
         \<and> last (handleDownload ev logo iv sub tax tot) = Saved (inv_id iv @ ''.pdf'')"
  by (simp add: handleDownload_ready [OF assms] layout_def after_logo_def items_table_def)

theorem download_layout_witness:
  "libraries_ready sample_env
   \<and> handleDownload sample_env (Some ''data:image/png;base64,iVBORw0KGgo='') sample_invoice
        (Fin 1150) (Fin 92) (Fin 1242)
      = script_events sample_env
        @ title_block
        @ logo_block sample_env (Some ''data:image/png;base64,iVBORw0KGgo='')
        @ metadata_block sample_invoice
        @ address_block sample_env ''FROM:'' (inv_from sample_invoice) (Fin 14)
        @ address_block sample_env ''TO:'' (inv_to sample_invoice) (Fin 120)
        @ [TableDrawn (items_table sample_env sample_invoice (Fin 1150) (Fin 92) (Fin 1242))]
        @ notes_block
            (table_finalY sample_env
               (items_table sample_env sample_invoice (Fin 1150) (Fin 92) (Fin 1242)))
            sample_invoice
        @ [Saved (inv_id sample_invoice @ ''.pdf'')]
   \<and> last (handleDownload sample_env (Some ''data:image/png;base64,iVBORw0KGgo='')
              sample_invoice (Fin 1150) (Fin 92) (Fin 1242))
      = Saved ''INV-20261234.pdf''"
  using sample_env_ready
    download_layout [OF sample_env_ready, of "Some ''data:image/png;base64,iVBORw0KGgo=''"
      sample_invoice "Fin 1150" "Fin 92" "Fin 1242"]
  by (simp add: sample_invoice_def initial_invoice_def)

text \<open>
  Claim C3 as stated fails on the order of two blocks: with a logo, the image is put on
  the page right after the title, before the first line of the metadata block.
\<close>

theorem metadata_before_logo_counterexample:
  "\<not> first_index (is_metadata sample_invoice)
        (handleDownload sample_env (Some ''data:image/png;base64,iVBORw0KGgo='') sample_invoice
           (Fin 1150) (Fin 92) (Fin 1242))
      < first_index is_logo
          (handleDownload sample_env (Some ''data:image/png;base64,iVBORw0KGgo='') sample_invoice
             (Fin 1150) (Fin 92) (Fin 1242))"
proof -
  have "handleDownload sample_env (Some ''data:image/png;base64,iVBORw0KGgo='') sample_invoice
          (Fin 1150) (Fin 92) (Fin 1242)
        = title_block
          @ [ImageAdded ''data:image/png;base64,iVBORw0KGgo='' ''PNG''
               (Fin 150) (Fin 10) (Fin 45) (Fin 15)]
          @ after_logo sample_env sample_invoice (Fin 1150) (Fin 92) (Fin 1242)"
    by (simp add: handleDownload_ready [OF sample_env_ready] layout_def logo_block_def
        script_events_def) (simp add: sample_env_def)
  then show ?thesis
    by (simp add: title_block_def after_logo_def metadata_block_def)
qed

lemma no_warning_outside_logo:
  "filter (\<lambda>e. \<not> is_warning e) (script_events ev) = script_events ev"
  "filter (\<lambda>e. \<not> is_warning e) title_block = title_block"
  "filter (\<lambda>e. \<not> is_warning e) (after_logo ev iv sub tax tot) = after_logo ev iv sub tax tot"
  by (simp_all add: script_events_def title_block_def after_logo_def metadata_block_def
      address_block_def notes_block_def)

lemma no_logo_outside_logo:
  "filter is_logo (script_events ev) = []"
  "filter is_logo title_block = []"
  "filter is_logo (after_logo ev iv sub tax tot) = []"
  by (simp_all add: script_events_def title_block_def after_logo_def metadata_block_def
      address_block_def notes_block_def)

text \<open>
  Claim C9. Whenever the two libraries are available and \<^verbatim>\<open>addImage\<close> throws for the
  logo, the handler logs the warning in the place of the image and goes on: metadata,
  addresses, table, notes and download follow as they do without a logo. No image is on
  the page, the trace without the warning is the trace of a run without logo, and the
  last event is the download.
\<close>

theorem logo_failure_nonfatal:
  assumes "libraries_ready ev" and "url \<noteq> []" and "addImage_error ev url = Some err"
  shows "handleDownload ev (Some url) iv sub tax tot
           = script_events ev @ title_block
             @ [ConsoleWarn ''Could not embed logo in PDF:'' err]
             @ after_logo ev iv sub tax tot
         \<and> filter is_logo (handleDownload ev (Some url) iv sub tax tot) = []
         \<and> filter (\<lambda>e. \<not> is_warning e) (handleDownload ev (Some url) iv sub tax tot)
             = handleDownload ev None iv sub tax tot
         \<and> last (handleDownload ev (Some url) iv sub tax tot) = Saved (inv_id iv @ ''.pdf'')"
proof -
  have a: "handleDownload ev (Some url) iv sub tax tot
             = script_events ev @ title_block
               @ [ConsoleWarn ''Could not embed logo in PDF:'' err]
               @ after_logo ev iv sub tax tot"
    using assms(2,3) by (simp add: handleDownload_ready [OF assms(1)] layout_def logo_block_def)
  have b: "handleDownload ev None iv sub tax tot
             = script_events ev @ title_block @ after_logo ev iv sub tax tot"
    by (simp add: handleDownload_ready [OF assms(1)] layout_def logo_block_def)
  have c: "last (after_logo ev iv sub tax tot) = Saved (inv_id iv @ ''.pdf'')"
    by (simp add: after_logo_def)
  have d: "after_logo ev iv sub tax tot \<noteq> []"
    by (simp add: after_logo_def)
  show ?thesis
    by (simp add: a b c d no_warning_outside_logo no_logo_outside_logo)
qed

theorem logo_failure_nonfatal_witness:
  "libraries_ready sample_env
   \<and> ''data:image/jpeg;base64,/9j/4AAQ'' \<noteq> []
   \<and> addImage_error sample_env ''data:image/jpeg;base64,/9j/4AAQ'' = Some ''Error: wrong image type''
   \<and> handleDownload sample_env (Some ''data:image/jpeg;base64,/9j/4AAQ'') sample_invoice
        (Fin 1150) (Fin 92) (Fin 1242)
      = script_events sample_env @ title_block
        @ [ConsoleWarn ''Could not embed logo in PDF:'' ''Error: wrong image type'']
        @ after_logo sample_env sample_invoice (Fin 1150) (Fin 92) (Fin 1242)
   \<and> last (handleDownload sample_env (Some ''data:image/jpeg;base64,/9j/4AAQ'') sample_invoice
              (Fin 1150) (Fin 92) (Fin 1242))
      = Saved ''INV-20261234.pdf''"
proof -
  have u: "''data:image/jpeg;base64,/9j/4AAQ'' \<noteq> []" by simp
  have e: "addImage_error sample_env ''data:image/jpeg;base64,/9j/4AAQ''
             = Some ''Error: wrong image type''"
    by (simp add: sample_env_def)
  note t = logo_failure_nonfatal
    [OF sample_env_ready u e, of sample_invoice "Fin 1150" "Fin 92" "Fin 1242"]
  have n: "inv_id sample_invoice @ ''.pdf'' = ''INV-20261234.pdf''"
    by (simp add: sample_invoice_def initial_invoice_def)
  note t1 = t [THEN conjunct1]
  note t4 = t [THEN conjunct2, THEN conjunct2, THEN conjunct2, unfolded n]
  show ?thesis using sample_env_ready u e t1 t4 by blast
qed

section \<open>The send action: theorems\<close>





end
